theory Spec2Isabelle
  imports Main
begin

section \<open>The Apple Silicon optimizer of \<open>acestep/apple_silicon_optimizer.py\<close>\<close>

text \<open>
  The module reads the platform, runs two \<open>sysctl\<close> commands, imports two optional
  libraries and writes \<open>os.environ\<close>. Everything it reads from outside is a field of the
  record \<open>world\<close>; the two things it changes (the process environment, and which imports it
  attempted) are fields of the same record, and every method that can change them returns
  the new world next to its result. An exception that leaves a method is a value \<open>Inl e\<close>.
  Writes to standard output are not part of the modelled state.
\<close>

subsection \<open>Python strings and integers\<close>

text \<open>
  A \<open>char\<close> stands for a code point below 256. \<open>str.isspace\<close> holds on that range for
  9..13, 28..32, 133 and 160; \<open>str.lower\<close> moves 65..90 and 192..222 (without 215) up
  by 32 and leaves every other code point of the range alone.
\<close>

definition isspace :: "char \<Rightarrow> bool" where
  "isspace c =
     (let n = (of_char c :: nat)
      in (9 \<le> n \<and> n \<le> 13) \<or> (28 \<le> n \<and> n \<le> 32) \<or> n = 133 \<or> n = 160)"

definition strip :: "string \<Rightarrow> string" where
  "strip s = rev (dropWhile isspace (rev (dropWhile isspace s)))"

definition lower_char :: "char \<Rightarrow> char" where
  "lower_char c =
     (let n = (of_char c :: nat)
      in if (65 \<le> n \<and> n \<le> 90) \<or> (192 \<le> n \<and> n \<le> 222 \<and> n \<noteq> 215)
         then char_of (n + 32) else c)"

definition lower :: "string \<Rightarrow> string" where
  "lower s = map lower_char s"

text \<open>\<open>needle in haystack\<close> on strings: the needle occurs as a contiguous run.\<close>

fun str_in :: "string \<Rightarrow> string \<Rightarrow> bool" where
  "str_in needle [] = (needle = [])"
| "str_in needle (c # cs) =
     (take (length needle) (c # cs) = needle \<or> str_in needle cs)"

text \<open>
  \<open>int(s)\<close> on a string, base ten: surrounding whitespace is dropped, one sign may
  lead, then decimal digits follow, single underscores allowed between two digits.
  \<open>None\<close> is the \<open>ValueError\<close>. The interpreter's limit on the length of a decimal
  string is not modelled.
\<close>

definition digit_val :: "char \<Rightarrow> int option" where
  "digit_val c =
     (let n = (of_char c :: int) in if 48 \<le> n \<and> n \<le> 57 then Some (n - 48) else None)"

fun parse_digits :: "string \<Rightarrow> int \<Rightarrow> bool \<Rightarrow> int option" where
  "parse_digits [] acc prev_digit = (if prev_digit then Some acc else None)"
| "parse_digits (c # cs) acc prev_digit =
     (if c = CHR ''_''
      then (if prev_digit \<and> cs \<noteq> [] then parse_digits cs acc False else None)
      else (case digit_val c of
              None \<Rightarrow> None
            | Some d \<Rightarrow> parse_digits cs (10 * acc + d) True))"

definition py_int :: "string \<Rightarrow> int option" where
  "py_int s =
     (case strip s of
        [] \<Rightarrow> None
      | c # cs \<Rightarrow>
          if c = CHR ''-'' then map_option uminus (parse_digits cs 0 False)
          else if c = CHR ''+'' then parse_digits cs 0 False
          else parse_digits (c # cs) 0 False)"

text \<open>\<open>str(n)\<close> for a non-negative integer.\<close>

fun str_nat :: "nat \<Rightarrow> string" where
  "str_nat n =
     (if n < 10 then [char_of (48 + n)]
      else str_nat (n div 10) @ [char_of (48 + n mod 10)])"

declare str_nat.simps [simp del]

subsection \<open>The outside world\<close>

text \<open>
  \<open>subprocess.run\<close> is called with a timeout and without \<open>check=True\<close>: it raises
  \<open>TimeoutExpired\<close>, raises \<open>FileNotFoundError\<close> when the binary is missing, or returns a
  completed process with its exit status and its standard output, whatever the status is.
\<close>

datatype run_outcome =
    RaisesTimeoutExpired
  | RaisesFileNotFoundError
  | CompletedProcess int string

text \<open>What \<open>import torch\<close> gives when it succeeds: the three queries the module makes.\<close>

record torch_lib =
  mps_is_available :: bool
  mps_is_built :: bool
  cuda_is_available :: bool

record world =
  platform_system :: string
  platform_machine :: string
  sysctl_brand_string :: run_outcome
  sysctl_memsize :: run_outcome
  torch :: "torch_lib option"
  psutil :: "int option"
  os_cpu_count :: "nat option"
  os_environ :: "string \<rightharpoonup> string"
  import_log :: "string list"

text \<open>
  \<open>torch w = None\<close> and \<open>psutil w = None\<close> say that the import raises \<open>ImportError\<close>;
  \<open>psutil w = Some b\<close> gives \<open>psutil.virtual_memory().available\<close> in bytes. Each executed
  \<open>import\<close> statement appends the module's name to \<open>import_log\<close>.
\<close>

datatype exn =
    TimeoutExpired
  | CalledProcessError
  | FileNotFoundError
  | ImportError
  | ValueError
  | TypeError
  | KeyError

definition import_module :: "string \<Rightarrow> world \<Rightarrow> world" where
  "import_module name w = w\<lparr>import_log := import_log w @ [name]\<rparr>"

subsection \<open>The class \<open>AppleSiliconOptimizer\<close>\<close>

record optimizer =
  is_apple_silicon :: bool
  mps_available :: bool

definition detect_apple_silicon :: "world \<Rightarrow> bool" where
  "detect_apple_silicon w =
     (if platform_system w \<noteq> ''Darwin'' then False
      else if lower (platform_machine w) = ''arm64'' then True
      else (case sysctl_brand_string w of
              RaisesTimeoutExpired \<Rightarrow> False
            | RaisesFileNotFoundError \<Rightarrow> False
            | CompletedProcess returncode out \<Rightarrow> str_in ''apple'' (lower (strip out))))"

text \<open>
  \<open>_check_mps_availability\<close> reads \<open>self\<close> only through \<open>self.is_apple_silicon\<close>, and
  the constructor calls it before \<open>self.mps_available\<close> exists, so it takes that flag.
\<close>

definition check_mps_availability :: "bool \<Rightarrow> world \<Rightarrow> bool \<times> world" where
  "check_mps_availability self_is_apple_silicon w =
     (if \<not> self_is_apple_silicon then (False, w)
      else (let w1 = import_module ''torch'' w
            in case torch w of
                 None \<Rightarrow> (False, w1)
               | Some t \<Rightarrow> (mps_is_available t \<and> mps_is_built t, w1)))"

definition init :: "world \<Rightarrow> optimizer \<times> world" where
  "init w =
     (let a = detect_apple_silicon w;
          (m, w1) = check_mps_availability a w
      in (\<lparr>is_apple_silicon = a, mps_available = m\<rparr>, w1))"

definition check_cuda_availability :: "world \<Rightarrow> bool \<times> world" where
  "check_cuda_availability w =
     (let w1 = import_module ''torch'' w
      in case torch w of
           None \<Rightarrow> (False, w1)
         | Some t \<Rightarrow> (cuda_is_available t, w1))"

definition get_optimal_device :: "optimizer \<Rightarrow> bool \<Rightarrow> world \<Rightarrow> string \<times> world" where
  "get_optimal_device self prefer_mps w =
     (if is_apple_silicon self \<and> prefer_mps \<and> mps_available self then (''mps'', w)
      else (let (c, w1) = check_cuda_availability w
            in if c then (''cuda'', w1) else (''cpu'', w1)))"

definition num_threads :: "world \<Rightarrow> string" where
  "num_threads w =
     str_nat (min 8 (case os_cpu_count w of
                       None \<Rightarrow> 4
                     | Some n \<Rightarrow> if n = 0 then 4 else n))"

definition optimizations :: "world \<Rightarrow> (string \<times> string) list" where
  "optimizations w =
     [(''PYTORCH_ENABLE_MPS_FALLBACK'', ''1''),
      (''PYTORCH_MPS_HIGH_WATERMARK_RATIO'', ''0.0''),
      (''MALLOC_ARENA_MAX'', ''4''),
      (''OMP_NUM_THREADS'', num_threads w),
      (''MKL_NUM_THREADS'', num_threads w),
      (''OPENBLAS_NUM_THREADS'', num_threads w),
      (''VECLIB_MAXIMUM_THREADS'', num_threads w),
      (''TOKENIZERS_PARALLELISM'', ''false'')]"

definition apply_apple_silicon_optimizations :: "optimizer \<Rightarrow> world \<Rightarrow> world" where
  "apply_apple_silicon_optimizations self w =
     (if \<not> is_apple_silicon self then w
      else w\<lparr>os_environ :=
               fold (\<lambda>(key, val) env. env(key \<mapsto> val)) (optimizations w) (os_environ w)\<rparr>)"

text \<open>
  \<open>get_memory_info\<close>: the dictionary maps a key to an \<open>Optional[int]\<close>, so a key can be
  missing (\<open>None\<close>) or present with the value \<open>None\<close> (\<open>Some None\<close>). The \<open>try\<close> body runs
  in two steps, each giving the exception it raised, if any, and the dictionary so far;
  every exception the body can raise is one the \<open>except\<close> clause names, and the handler
  stores \<open>None\<close> under both keys.
\<close>

definition get_memory_info :: "world \<Rightarrow> (string \<rightharpoonup> int option) \<times> world" where
  "get_memory_info w =
     (let memory_info = Map.empty;
          (raised, memory_info) =
            (if platform_system w = ''Darwin''
             then (case sysctl_memsize w of
                     RaisesTimeoutExpired \<Rightarrow> (Some TimeoutExpired, memory_info)
                   | RaisesFileNotFoundError \<Rightarrow> (Some FileNotFoundError, memory_info)
                   | CompletedProcess returncode out \<Rightarrow>
                       (case py_int (strip out) of
                          None \<Rightarrow> (Some ValueError, memory_info)
                        | Some total_bytes \<Rightarrow>
                            (None, memory_info(''total_gb'' \<mapsto> Some (total_bytes div 1024 ^ 3)))))
             else (None, memory_info));
          (raised, memory_info, w) =
            (case raised of
               Some e \<Rightarrow> (raised, memory_info, w)
             | None \<Rightarrow>
                 (let w1 = import_module ''psutil'' w
                  in case psutil w of
                       None \<Rightarrow> (Some ImportError, memory_info, w1)
                     | Some available \<Rightarrow>
                         (None,
                          memory_info(''available_gb'' \<mapsto> Some (available div 1024 ^ 3)),
                          w1)))
      in case raised of
           Some e \<Rightarrow> (memory_info(''total_gb'' \<mapsto> None, ''available_gb'' \<mapsto> None), w)
         | None \<Rightarrow> (memory_info, w))"

record settings =
  device :: string
  offload_to_cpu :: bool
  offload_dit_to_cpu :: bool
  use_flash_attention :: bool
  backend :: string
  batch_size :: int
  precision :: string

text \<open>
  \<open>memory_info.get("total_gb", 8)\<close> gives 8 only when the key is missing; a key stored
  with \<open>None\<close> gives \<open>None\<close>, and \<open>None < 32\<close> raises \<open>TypeError\<close> before anything else of
  the result is computed.
\<close>

definition get_recommended_settings :: "optimizer \<Rightarrow> world \<Rightarrow> (exn + settings) \<times> world" where
  "get_recommended_settings self w =
     (let (memory_info, w1) = get_memory_info w;
          total_gb = (case memory_info ''total_gb'' of None \<Rightarrow> Some 8 | Some v \<Rightarrow> v)
      in case total_gb of
           None \<Rightarrow> (Inl TypeError, w1)
         | Some t \<Rightarrow>
             (let offload = t < 32;
                  (dev, w2) = get_optimal_device self True w1
              in (Inr \<lparr>device = dev,
                       offload_to_cpu = offload,
                       offload_dit_to_cpu = t < 16,
                       use_flash_attention = False,
                       backend = ''pt'',
                       batch_size = min 4 (max 1 (t div 8)),
                       precision = (if mps_available self then ''float16'' else ''float32'')\<rparr>,
                  w2)))"

text \<open>
  When the \<open>except\<close> branch of \<open>get_memory_info\<close> runs, both keys are stored with
  \<open>None\<close>. That happens exactly when the \<open>sysctl\<close> call raises or prints no integer on
  macOS, or psutil cannot be imported.
\<close>

definition memory_probe_fails :: "world \<Rightarrow> bool" where
  "memory_probe_fails w =
     ((platform_system w = ''Darwin'' \<and>
        (case sysctl_memsize w of
           CompletedProcess returncode out \<Rightarrow> py_int (strip out) = None
         | _ \<Rightarrow> True))
      \<or> psutil w = None)"

text \<open>
  \<open>print_system_info\<close> without its output: the calls it makes in order, and the
  exceptions they can raise. \<open>memory_info["total_gb"]\<close> is a subscript, so a missing key
  raises \<open>KeyError\<close>.
\<close>

definition print_system_info :: "optimizer \<Rightarrow> world \<Rightarrow> (exn + unit) \<times> world" where
  "print_system_info self w =
     (let (dev, w1) = get_optimal_device self True w;
          (memory_info, w2) = get_memory_info w1
      in case memory_info ''total_gb'' of
           None \<Rightarrow> (Inl KeyError, w2)
         | Some total_gb \<Rightarrow>
             (case memory_info ''available_gb'' of
                None \<Rightarrow> (Inl KeyError, w2)
              | Some available_gb \<Rightarrow>
                  (let (recommendations, w3) = get_recommended_settings self w2
                   in case recommendations of
                        Inl e \<Rightarrow> (Inl e, w3)
                      | Inr r \<Rightarrow> (Inr (), w3))))"

subsection \<open>Sequences of method calls on one instance\<close>

text \<open>
  A caller holds one instance and calls its public methods in any order. No method body
  assigns to \<open>self.is_apple_silicon\<close> or \<open>self.mps_available\<close>; only the constructor
  does. A call gives back the instance and the world after it, whether the method returned
  or raised.
\<close>

datatype method_call =
    GetOptimalDevice bool
  | ApplyAppleSiliconOptimizations
  | GetMemoryInfo
  | GetRecommendedSettings
  | PrintSystemInfo

fun call_method :: "method_call \<Rightarrow> optimizer \<times> world \<Rightarrow> optimizer \<times> world" where
  "call_method (GetOptimalDevice prefer_mps) (self, w) =
     (self, snd (get_optimal_device self prefer_mps w))"
| "call_method ApplyAppleSiliconOptimizations (self, w) =
     (self, apply_apple_silicon_optimizations self w)"
| "call_method GetMemoryInfo (self, w) = (self, snd (get_memory_info w))"
| "call_method GetRecommendedSettings (self, w) =
     (self, snd (get_recommended_settings self w))"
| "call_method PrintSystemInfo (self, w) = (self, snd (print_system_info self w))"

definition call_methods :: "method_call list \<Rightarrow> optimizer \<times> world \<Rightarrow> optimizer \<times> world" where
  "call_methods cs st = fold call_method cs st"

definition mps_only_on_apple_silicon :: "optimizer \<Rightarrow> bool" where
  "mps_only_on_apple_silicon self = (\<not> mps_available self \<or> is_apple_silicon self)"

subsection \<open>Concrete machines\<close>

text \<open>An M1 Mac with 16 GiB, torch with MPS, psutil, ten cores.\<close>

definition mac_m1 :: world where
  "mac_m1 =
     \<lparr>platform_system = ''Darwin'',
      platform_machine = ''arm64'',
      sysctl_brand_string = CompletedProcess 0 (''Apple M1'' @ [CHR 0x0A]),
      sysctl_memsize = CompletedProcess 0 (''17179869184'' @ [CHR 0x0A]),
      torch = Some \<lparr>mps_is_available = True, mps_is_built = True, cuda_is_available = False\<rparr>,
      psutil = Some 8589934592,
      os_cpu_count = Some 10,
      os_environ = [''PATH'' \<mapsto> ''/usr/bin''],
      import_log = []\<rparr>"

text \<open>The same Mac reporting another \<open>hw.memsize\<close>.\<close>

definition mac_with_memsize :: "string \<Rightarrow> world" where
  "mac_with_memsize bytes = mac_m1\<lparr>sysctl_memsize := CompletedProcess 0 (bytes @ [CHR 0x0A])\<rparr>"

text \<open>A Linux machine with a CUDA build of torch; there is no \<open>sysctl\<close> with these keys.\<close>

definition linux_cuda :: world where
  "linux_cuda =
     \<lparr>platform_system = ''Linux'',
      platform_machine = ''x86_64'',
      sysctl_brand_string = CompletedProcess 255 [],
      sysctl_memsize = CompletedProcess 255 [],
      torch = Some \<lparr>mps_is_available = False, mps_is_built = False, cuda_is_available = True\<rparr>,
      psutil = Some 68719476736,
      os_cpu_count = Some 32,
      os_environ = [''PATH'' \<mapsto> ''/usr/bin''],
      import_log = []\<rparr>"

text \<open>The M1 Mac without psutil installed.\<close>

definition mac_no_psutil :: world where
  "mac_no_psutil = mac_m1\<lparr>psutil := None\<rparr>"

text \<open>The M1 Mac on which \<open>sysctl -n hw.memsize\<close> does not answer within five seconds.\<close>

definition mac_memsize_timeout :: world where
  "mac_memsize_timeout = mac_m1\<lparr>sysctl_memsize := RaisesTimeoutExpired\<rparr>"

text \<open>
  A Mac that reports \<open>x86_64\<close>, where the brand-string command writes a line and then
  exits with status 1.
\<close>

definition intel_mac_nonzero_exit :: world where
  "intel_mac_nonzero_exit =
     \<lparr>platform_system = ''Darwin'',
      platform_machine = ''x86_64'',
      sysctl_brand_string = CompletedProcess 1 (''Apple processor'' @ [CHR 0x0A]),
      sysctl_memsize = CompletedProcess 0 (''17179869184'' @ [CHR 0x0A]),
      torch = None,
      psutil = Some 8589934592,
      os_cpu_count = Some 8,
      os_environ = [''PATH'' \<mapsto> ''/usr/bin''],
      import_log = []\<rparr>"

section \<open>Properties\<close>

subsection \<open>What each method returns and what it leaves behind\<close>

lemma check_cuda_availability_fst:
  "fst (check_cuda_availability w) =
     (case torch w of None \<Rightarrow> False | Some t \<Rightarrow> cuda_is_available t)"
  by (simp add: check_cuda_availability_def Let_def split: option.split)

lemma check_cuda_availability_snd:
  "snd (check_cuda_availability w) = import_module ''torch'' w"
  by (simp add: check_cuda_availability_def Let_def split: option.split)

lemma get_optimal_device_fst:
  "fst (get_optimal_device self prefer_mps w) =
     (if is_apple_silicon self \<and> prefer_mps \<and> mps_available self then ''mps''
      else if fst (check_cuda_availability w) then ''cuda'' else ''cpu'')"
  by (simp add: get_optimal_device_def split_beta Let_def)

lemma get_optimal_device_snd:
  "snd (get_optimal_device self prefer_mps w) =
     (if is_apple_silicon self \<and> prefer_mps \<and> mps_available self then w
      else import_module ''torch'' w)"
  by (simp add: get_optimal_device_def split_beta Let_def check_cuda_availability_snd)

lemma get_memory_info_snd:
  "snd (get_memory_info w) = w \<or> snd (get_memory_info w) = import_module ''psutil'' w"
  by (simp add: get_memory_info_def Let_def split: run_outcome.split option.split)

lemma get_memory_info_log_irrelevant:
  "fst (get_memory_info (w\<lparr>import_log := l\<rparr>)) = fst (get_memory_info w)"
  by (simp add: get_memory_info_def Let_def import_module_def
           split: run_outcome.split option.split)

text \<open>The three cases of \<open>get_recommended_settings\<close>, by what the dictionary holds.\<close>

lemma recommended_settings_total_known:
  assumes "fst (get_memory_info w) ''total_gb'' = Some (Some t)"
  shows "fst (get_recommended_settings self w) =
           Inr \<lparr>device = fst (get_optimal_device self True (snd (get_memory_info w))),
                offload_to_cpu = t < 32,
                offload_dit_to_cpu = t < 16,
                use_flash_attention = False,
                backend = ''pt'',
                batch_size = min 4 (max 1 (t div 8)),
                precision = (if mps_available self then ''float16'' else ''float32'')\<rparr>"
  using assms by (simp add: get_recommended_settings_def split_beta Let_def)

lemma recommended_settings_total_missing:
  assumes "fst (get_memory_info w) ''total_gb'' = None"
  shows "fst (get_recommended_settings self w) =
           Inr \<lparr>device = fst (get_optimal_device self True (snd (get_memory_info w))),
                offload_to_cpu = True,
                offload_dit_to_cpu = True,
                use_flash_attention = False,
                backend = ''pt'',
                batch_size = 1,
                precision = (if mps_available self then ''float16'' else ''float32'')\<rparr>"
  using assms by (simp add: get_recommended_settings_def split_beta Let_def)

lemma recommended_settings_total_none:
  assumes "fst (get_memory_info w) ''total_gb'' = Some None"
  shows "fst (get_recommended_settings self w) = Inl TypeError"
  using assms by (simp add: get_recommended_settings_def split_beta Let_def)

lemma memory_probe_fails_both_none:
  assumes "memory_probe_fails w"
  shows "fst (get_memory_info w) = [''total_gb'' \<mapsto> None, ''available_gb'' \<mapsto> None]"
  using assms
  by (auto simp add: memory_probe_fails_def get_memory_info_def Let_def
           split: run_outcome.splits option.splits)

lemma memory_probe_fails_type_error:
  assumes "memory_probe_fails w"
  shows "fst (get_recommended_settings self w) = Inl TypeError"
  by (rule recommended_settings_total_none)
     (simp add: memory_probe_fails_both_none [OF assms])

lemma memory_probe_succeeds_total_gb:
  assumes "\<not> memory_probe_fails w"
  shows "fst (get_memory_info w) ''total_gb'' \<noteq> Some None"
  using assms
  by (auto simp add: memory_probe_fails_def get_memory_info_def Let_def
           split: run_outcome.splits option.splits)

subsection \<open>Exceptions out of the recommended settings\<close>

text \<open>
  C1. No public accessor raises, whatever the environment. On the M1 Mac without psutil
  the claim fails: \<open>get_memory_info\<close> catches the \<open>ImportError\<close> and stores \<open>None\<close>
  under \<open>total_gb\<close>, \<open>memory_info.get("total_gb", 8)\<close> finds the key and gives that
  \<open>None\<close>, and \<open>get_recommended_settings\<close> leaves with the \<open>TypeError\<close> of
  \<open>None < 32\<close>.
\<close>

theorem recommended_settings_raises_without_psutil:
  "fst (get_recommended_settings (fst (init mac_no_psutil)) (snd (init mac_no_psutil)))
     = Inl TypeError"
  by code_simp

text \<open>
  C2. When the memory probe fails, both entries are absent and the recommended settings
  are those of 8 GB. On the M1 Mac whose \<open>hw.memsize\<close> query times out the first half
  holds, both keys are stored with \<open>None\<close>, and the second does not:
  \<open>get_recommended_settings\<close> raises \<open>TypeError\<close> and gives no settings at all.
\<close>

theorem memory_probe_timeout_no_settings:
  "memory_probe_fails mac_memsize_timeout
   \<and> fst (get_memory_info mac_memsize_timeout) ''total_gb'' = Some None
   \<and> fst (get_memory_info mac_memsize_timeout) ''available_gb'' = Some None
   \<and> fst (get_recommended_settings (fst (init mac_memsize_timeout)) mac_memsize_timeout)
       = Inl TypeError"
  by code_simp

subsection \<open>Backend checks off the target OS\<close>

text \<open>
  C3, as stated: off macOS both backend checks return false and neither tries to import
  torch. On the Linux machine with CUDA the secondary check imports torch and returns
  true.
\<close>

theorem cuda_check_on_linux_counterexample:
  "platform_system linux_cuda \<noteq> ''Darwin''
   \<and> fst (check_cuda_availability linux_cuda) = True
   \<and> import_log (snd (check_cuda_availability linux_cuda))
       = import_log linux_cuda @ [''torch'']"
  by code_simp

text \<open>
  C3, amended: off macOS the instance is built with both flags false and without an
  import, and its accelerated-backend check returns false and leaves the world as it was.
  The secondary-backend check never looks at the OS: it always executes
  \<open>import torch\<close>, and returns what \<open>torch.cuda.is_available()\<close> says, or false when the
  import fails.
\<close>

theorem backend_checks_off_target_os:
  assumes "platform_system w \<noteq> ''Darwin''"
  shows "init w = (\<lparr>is_apple_silicon = False, mps_available = False\<rparr>, w)
         \<and> check_mps_availability (is_apple_silicon (fst (init w))) w' = (False, w')
         \<and> check_cuda_availability w' =
             ((case torch w' of None \<Rightarrow> False | Some t \<Rightarrow> cuda_is_available t),
              w'\<lparr>import_log := import_log w' @ [''torch'']\<rparr>)"
proof -
  have detect: "detect_apple_silicon w = False"
    using assms by (simp add: detect_apple_silicon_def)
  have built: "init w = (\<lparr>is_apple_silicon = False, mps_available = False\<rparr>, w)"
    by (simp add: init_def detect check_mps_availability_def)
  have mps: "check_mps_availability (is_apple_silicon (fst (init w))) w' = (False, w')"
    by (simp add: built check_mps_availability_def)
  have cuda: "check_cuda_availability w' =
      ((case torch w' of None \<Rightarrow> False | Some t \<Rightarrow> cuda_is_available t),
       w'\<lparr>import_log := import_log w' @ [''torch'']\<rparr>)"
    by (simp add: check_cuda_availability_def import_module_def Let_def split: option.split)
  from built mps cuda show ?thesis by simp
qed

theorem backend_checks_off_target_os_witness:
  "platform_system linux_cuda \<noteq> ''Darwin''
   \<and> init linux_cuda = (\<lparr>is_apple_silicon = False, mps_available = False\<rparr>, linux_cuda)
   \<and> check_mps_availability (is_apple_silicon (fst (init linux_cuda))) linux_cuda
       = (False, linux_cuda)
   \<and> check_cuda_availability linux_cuda
       = (True, linux_cuda\<lparr>import_log := [''torch'']\<rparr>)"
proof -
  have os: "platform_system linux_cuda \<noteq> ''Darwin''"
    by (simp add: linux_cuda_def)
  have "torch linux_cuda =
      Some \<lparr>mps_is_available = False, mps_is_built = False, cuda_is_available = True\<rparr>"
    and "import_log linux_cuda = []"
    by (simp_all add: linux_cuda_def)
  then have "check_cuda_availability linux_cuda
      = (True, linux_cuda\<lparr>import_log := [''torch'']\<rparr>)"
    using backend_checks_off_target_os [OF os, of linux_cuda] by simp
  then show ?thesis
    using os backend_checks_off_target_os [OF os, of linux_cuda] by blast
qed

subsection \<open>The device decision\<close>

text \<open>
  C4. \<open>get_optimal_device\<close> returns the first match of: \<open>mps\<close> when the instance is on
  Apple Silicon, the caller prefers MPS and MPS is available; else \<open>cuda\<close> when the CUDA
  check succeeds; else \<open>cpu\<close>. With \<open>prefer_mps = False\<close> it never returns \<open>mps\<close>.
\<close>

theorem get_optimal_device_first_match:
  "fst (get_optimal_device self prefer_mps w) =
     (if is_apple_silicon self \<and> prefer_mps \<and> mps_available self then ''mps''
      else if fst (check_cuda_availability w) then ''cuda''
      else ''cpu'')
   \<and> fst (get_optimal_device self False w) \<noteq> ''mps''"
  by (simp add: get_optimal_device_fst)

theorem get_optimal_device_first_match_witness:
  "fst (get_optimal_device (fst (init mac_m1)) True mac_m1) = ''mps''
   \<and> fst (get_optimal_device (fst (init mac_m1)) False mac_m1) = ''cpu''
   \<and> fst (get_optimal_device (fst (init linux_cuda)) True linux_cuda) = ''cuda''"
proof -
  have mac: "fst (init mac_m1) = \<lparr>is_apple_silicon = True, mps_available = True\<rparr>"
    by code_simp
  have linux: "fst (init linux_cuda) = \<lparr>is_apple_silicon = False, mps_available = False\<rparr>"
    by code_simp
  have cuda: "fst (check_cuda_availability mac_m1) = False"
    "fst (check_cuda_availability linux_cuda) = True"
    by code_simp+
  show ?thesis
    using get_optimal_device_first_match [of "fst (init mac_m1)" True mac_m1]
      get_optimal_device_first_match [of "fst (init mac_m1)" False mac_m1]
      get_optimal_device_first_match [of "fst (init linux_cuda)" True linux_cuda]
    by (simp add: mac linux cuda)
qed

subsection \<open>Thresholds on the probed memory\<close>

text \<open>
  C5. Whenever the probe stored a total of \<open>t\<close> GB, \<open>get_recommended_settings\<close> returns
  settings with \<open>offload_to_cpu\<close> true exactly when \<open>t < 32\<close> and \<open>offload_dit_to_cpu\<close>
  true exactly when \<open>t < 16\<close>.
\<close>

theorem offload_thresholds:
  assumes "fst (get_memory_info w) ''total_gb'' = Some (Some t)"
  shows "\<exists>s. fst (get_recommended_settings self w) = Inr s
             \<and> offload_to_cpu s = (t < 32)
             \<and> offload_dit_to_cpu s = (t < 16)"
  by (simp add: recommended_settings_total_known [OF assms])

text \<open>The boundaries: 32 GiB and 31 GiB, 16 GiB and 15 GiB, as \<open>hw.memsize\<close> prints them.\<close>

theorem offload_thresholds_witness:
  "(\<exists>s. fst (get_recommended_settings (fst (init mac_m1)) (mac_with_memsize ''34359738368''))
          = Inr s \<and> \<not> offload_to_cpu s \<and> \<not> offload_dit_to_cpu s)
   \<and> (\<exists>s. fst (get_recommended_settings (fst (init mac_m1)) (mac_with_memsize ''33285996544''))
          = Inr s \<and> offload_to_cpu s \<and> \<not> offload_dit_to_cpu s)
   \<and> (\<exists>s. fst (get_recommended_settings (fst (init mac_m1)) (mac_with_memsize ''17179869184''))
          = Inr s \<and> offload_to_cpu s \<and> \<not> offload_dit_to_cpu s)
   \<and> (\<exists>s. fst (get_recommended_settings (fst (init mac_m1)) (mac_with_memsize ''16106127360''))
          = Inr s \<and> offload_to_cpu s \<and> offload_dit_to_cpu s)"
proof -
  have g32: "fst (get_memory_info (mac_with_memsize ''34359738368'')) ''total_gb''
      = Some (Some 32)"
    by code_simp
  have g31: "fst (get_memory_info (mac_with_memsize ''33285996544'')) ''total_gb''
      = Some (Some 31)"
    by code_simp
  have g16: "fst (get_memory_info (mac_with_memsize ''17179869184'')) ''total_gb''
      = Some (Some 16)"
    by code_simp
  have g15: "fst (get_memory_info (mac_with_memsize ''16106127360'')) ''total_gb''
      = Some (Some 15)"
    by code_simp
  show ?thesis
    using offload_thresholds [OF g32, of "fst (init mac_m1)"]
      offload_thresholds [OF g31, of "fst (init mac_m1)"]
      offload_thresholds [OF g16, of "fst (init mac_m1)"]
      offload_thresholds [OF g15, of "fst (init mac_m1)"]
    by simp
qed

text \<open>
  C6. Whenever the probe stored a total of \<open>t\<close> GB, the batch size is \<open>t\<close> divided by 8,
  rounded down, then raised to at least 1 and cut to at most 4.
\<close>

theorem batch_size_clamped:
  assumes "fst (get_memory_info w) ''total_gb'' = Some (Some t)"
  shows "\<exists>s. fst (get_recommended_settings self w) = Inr s
             \<and> batch_size s = min 4 (max 1 (t div 8))
             \<and> 1 \<le> batch_size s \<and> batch_size s \<le> 4"
  by (simp add: recommended_settings_total_known [OF assms])

text \<open>4 GiB gives 1, 16 GiB gives 2, 40 GiB gives 4.\<close>

theorem batch_size_clamped_witness:
  "(\<exists>s. fst (get_recommended_settings (fst (init mac_m1)) (mac_with_memsize ''4294967296''))
          = Inr s \<and> batch_size s = 1)
   \<and> (\<exists>s. fst (get_recommended_settings (fst (init mac_m1)) (mac_with_memsize ''17179869184''))
          = Inr s \<and> batch_size s = 2)
   \<and> (\<exists>s. fst (get_recommended_settings (fst (init mac_m1)) (mac_with_memsize ''42949672960''))
          = Inr s \<and> batch_size s = 4)"
proof -
  have g4: "fst (get_memory_info (mac_with_memsize ''4294967296'')) ''total_gb''
      = Some (Some 4)"
    by code_simp
  have g16: "fst (get_memory_info (mac_with_memsize ''17179869184'')) ''total_gb''
      = Some (Some 16)"
    by code_simp
  have g40: "fst (get_memory_info (mac_with_memsize ''42949672960'')) ''total_gb''
      = Some (Some 40)"
    by code_simp
  show ?thesis
    using batch_size_clamped [OF g4, of "fst (init mac_m1)"]
      batch_size_clamped [OF g16, of "fst (init mac_m1)"]
      batch_size_clamped [OF g40, of "fst (init mac_m1)"]
    by auto
qed

subsection \<open>The fallback brand-string command\<close>

text \<open>
  A timeout and a missing binary are caught, and the detector answers false without
  raising.
\<close>

lemma detect_false_when_sysctl_raises:
  assumes "lower (platform_machine w) \<noteq> ''arm64''"
    and "sysctl_brand_string w = RaisesTimeoutExpired
         \<or> sysctl_brand_string w = RaisesFileNotFoundError"
  shows "detect_apple_silicon w = False"
  using assms by (auto simp add: detect_apple_silicon_def)

text \<open>
  A completed run is judged by its output alone; the exit status is never read.
\<close>

lemma detect_ignores_returncode:
  assumes "sysctl_brand_string w = CompletedProcess rc out"
  shows "detect_apple_silicon w
           = detect_apple_silicon (w\<lparr>sysctl_brand_string := CompletedProcess 0 out\<rparr>)"
  using assms by (simp add: detect_apple_silicon_def)

text \<open>
  C7. Every failure of the fallback command, a non-zero exit among them, gives false. On
  the Mac whose brand-string command prints \<open>Apple processor\<close> and exits with status 1,
  the detector answers true: \<open>subprocess.run\<close> is called without \<open>check=True\<close>, so the
  \<open>CalledProcessError\<close> that the \<open>except\<close> clause names is never raised.
\<close>

theorem nonzero_exit_detected_as_apple_silicon:
  "sysctl_brand_string intel_mac_nonzero_exit
     = CompletedProcess 1 (''Apple processor'' @ [CHR 0x0A])
   \<and> detect_apple_silicon intel_mac_nonzero_exit = True
   \<and> is_apple_silicon (fst (init intel_mac_nonzero_exit)) = True"
  by code_simp

subsection \<open>The process environment\<close>

text \<open>
  C8. On an instance that did not detect Apple Silicon,
  \<open>apply_apple_silicon_optimizations\<close> changes nothing: the process environment after the
  call is the one before it.
\<close>

theorem apply_keeps_environment_off_target:
  assumes "\<not> is_apple_silicon self"
  shows "os_environ (apply_apple_silicon_optimizations self w) = os_environ w
         \<and> apply_apple_silicon_optimizations self w = w"
  using assms by (simp add: apply_apple_silicon_optimizations_def)

theorem apply_keeps_environment_off_target_witness:
  "\<not> is_apple_silicon (fst (init linux_cuda))
   \<and> os_environ (apply_apple_silicon_optimizations (fst (init linux_cuda)) linux_cuda)
       = os_environ linux_cuda
   \<and> os_environ (apply_apple_silicon_optimizations (fst (init linux_cuda)) linux_cuda) ''PATH''
       = Some ''/usr/bin''
   \<and> os_environ (apply_apple_silicon_optimizations (fst (init linux_cuda)) linux_cuda)
         ''OMP_NUM_THREADS'' = None"
proof -
  have off: "\<not> is_apple_silicon (fst (init linux_cuda))"
    by code_simp
  have env: "os_environ linux_cuda ''PATH'' = Some ''/usr/bin''"
    "os_environ linux_cuda ''OMP_NUM_THREADS'' = None"
    by code_simp+
  show ?thesis
    using off env apply_keeps_environment_off_target [OF off, of linux_cuda]
    by simp
qed

text \<open>On the M1 Mac the same call does write the table.\<close>

lemma apply_writes_environment_on_m1:
  "map (os_environ (apply_apple_silicon_optimizations (fst (init mac_m1)) mac_m1))
       [''PYTORCH_ENABLE_MPS_FALLBACK'', ''PYTORCH_MPS_HIGH_WATERMARK_RATIO'',
        ''MALLOC_ARENA_MAX'', ''OMP_NUM_THREADS'', ''MKL_NUM_THREADS'',
        ''OPENBLAS_NUM_THREADS'', ''VECLIB_MAXIMUM_THREADS'', ''TOKENIZERS_PARALLELISM'',
        ''PATH'']
     = [Some ''1'', Some ''0.0'', Some ''4'', Some ''8'', Some ''8'', Some ''8'', Some ''8'',
        Some ''false'', Some ''/usr/bin'']"
  by code_simp

subsection \<open>Repeated queries\<close>

text \<open>
  A query changes nothing of the world but the log of attempted imports, and no result
  depends on that log.
\<close>

lemma get_memory_info_only_logs:
  "\<exists>l. snd (get_memory_info w) = w\<lparr>import_log := l\<rparr>"
proof -
  have "w = w\<lparr>import_log := import_log w\<rparr>" by simp
  moreover have "import_module ''psutil'' w = w\<lparr>import_log := import_log w @ [''psutil'']\<rparr>"
    by (simp add: import_module_def)
  ultimately show ?thesis
    using get_memory_info_snd [of w] by metis
qed

lemma get_optimal_device_only_logs:
  "\<exists>l. snd (get_optimal_device self prefer_mps (w\<lparr>import_log := k\<rparr>)) = w\<lparr>import_log := l\<rparr>"
  by (auto simp add: get_optimal_device_snd import_module_def)

lemma get_optimal_device_log_irrelevant:
  "fst (get_optimal_device self prefer_mps (w\<lparr>import_log := l\<rparr>))
     = fst (get_optimal_device self prefer_mps w)"
  by (simp add: get_optimal_device_fst check_cuda_availability_fst)

lemma get_recommended_settings_only_logs:
  "\<exists>l. snd (get_recommended_settings self w) = w\<lparr>import_log := l\<rparr>"
proof -
  obtain k where k: "snd (get_memory_info w) = w\<lparr>import_log := k\<rparr>"
    using get_memory_info_only_logs by blast
  obtain l where l: "snd (get_optimal_device self True (w\<lparr>import_log := k\<rparr>))
      = w\<lparr>import_log := l\<rparr>"
    using get_optimal_device_only_logs by blast
  show ?thesis
    by (cases "fst (get_memory_info w) ''total_gb''")
       (auto simp add: get_recommended_settings_def split_beta Let_def k l
             split: option.split)
qed

lemma get_recommended_settings_log_irrelevant:
  "fst (get_recommended_settings self (w\<lparr>import_log := l\<rparr>))
     = fst (get_recommended_settings self w)"
proof -
  obtain k where k: "snd (get_memory_info w) = w\<lparr>import_log := k\<rparr>"
    using get_memory_info_only_logs by blast
  obtain k' where k': "snd (get_memory_info (w\<lparr>import_log := l\<rparr>))
      = w\<lparr>import_log := k'\<rparr>"
    using get_memory_info_only_logs [of "w\<lparr>import_log := l\<rparr>"] by auto
  show ?thesis
    by (simp add: get_recommended_settings_def split_beta Let_def k k'
          get_memory_info_log_irrelevant get_optimal_device_log_irrelevant
          split: option.split)
qed

text \<open>
  C9. With the outside world unchanged, a second call to \<open>get_recommended_settings\<close>,
  made in the world the first call left, has the outcome of the first.
\<close>

theorem get_recommended_settings_repeatable:
  "fst (get_recommended_settings self (snd (get_recommended_settings self w)))
     = fst (get_recommended_settings self w)"
proof -
  obtain l where "snd (get_recommended_settings self w) = w\<lparr>import_log := l\<rparr>"
    using get_recommended_settings_only_logs by blast
  then show ?thesis
    by (simp add: get_recommended_settings_log_irrelevant)
qed

theorem get_recommended_settings_repeatable_witness:
  "fst (get_recommended_settings (fst (init mac_m1)) (snd (init mac_m1)))
     = Inr \<lparr>device = ''mps'', offload_to_cpu = True, offload_dit_to_cpu = False,
            use_flash_attention = False, backend = ''pt'', batch_size = 2,
            precision = ''float16''\<rparr>
   \<and> fst (get_recommended_settings (fst (init mac_m1))
          (snd (get_recommended_settings (fst (init mac_m1)) (snd (init mac_m1)))))
     = Inr \<lparr>device = ''mps'', offload_to_cpu = True, offload_dit_to_cpu = False,
            use_flash_attention = False, backend = ''pt'', batch_size = 2,
            precision = ''float16''\<rparr>"
proof -
  have first: "fst (get_recommended_settings (fst (init mac_m1)) (snd (init mac_m1)))
     = Inr \<lparr>device = ''mps'', offload_to_cpu = True, offload_dit_to_cpu = False,
            use_flash_attention = False, backend = ''pt'', batch_size = 2,
            precision = ''float16''\<rparr>"
    by code_simp
  show ?thesis
    using first
      get_recommended_settings_repeatable [of "fst (init mac_m1)" "snd (init mac_m1)"]
    by simp
qed

subsection \<open>The two flags of an instance\<close>

lemma init_mps_only_on_apple_silicon:
  "mps_only_on_apple_silicon (fst (init w))"
  by (simp add: mps_only_on_apple_silicon_def init_def check_mps_availability_def
        split_beta Let_def split: option.split)

lemma init_is_apple_silicon:
  "is_apple_silicon (fst (init w)) = detect_apple_silicon w"
  by (simp add: init_def split_beta Let_def)

lemma call_method_keeps_self:
  "fst (call_method c st) = fst st"
  by (cases c; cases st) simp_all

lemma call_methods_keeps_self:
  "fst (call_methods cs st) = fst st"
  unfolding call_methods_def
  by (induction cs arbitrary: st) (simp_all add: call_method_keeps_self)

lemma recommended_precision:
  assumes "fst (get_recommended_settings self w) = Inr s"
  shows "precision s = (if mps_available self then ''float16'' else ''float32'')"
  using assms
  by (auto simp add: get_recommended_settings_def split_beta Let_def split: option.splits)

text \<open>
  C10. On every constructed instance \<open>mps_available\<close> implies \<open>is_apple_silicon\<close>; every
  sequence of method calls leaves both flags as the constructor set them; so settings with
  precision \<open>float16\<close> are returned only by an instance whose constructor detected Apple
  Silicon.
\<close>

theorem mps_available_implies_apple_silicon:
  "(mps_available (fst (init w)) \<longrightarrow> is_apple_silicon (fst (init w)))
   \<and> fst (call_methods cs (init w)) = fst (init w)
   \<and> mps_only_on_apple_silicon (fst (call_methods cs (init w)))
   \<and> (fst (get_recommended_settings (fst (call_methods cs (init w))) w') = Inr s
        \<and> precision s = ''float16''
       \<longrightarrow> is_apple_silicon (fst (call_methods cs (init w))) \<and> detect_apple_silicon w)"
proof -
  have inv: "mps_only_on_apple_silicon (fst (init w))"
    by (rule init_mps_only_on_apple_silicon)
  have same: "fst (call_methods cs (init w)) = fst (init w)"
    by (rule call_methods_keeps_self)
  have "is_apple_silicon (fst (init w))"
    if "fst (get_recommended_settings (fst (init w)) w') = Inr s"
      and "precision s = ''float16''"
  proof -
    from recommended_precision [OF that(1)] that(2)
    have "mps_available (fst (init w))"
      by (simp split: if_splits)
    with inv show ?thesis
      by (simp add: mps_only_on_apple_silicon_def)
  qed
  with inv same show ?thesis
    by (auto simp add: mps_only_on_apple_silicon_def init_is_apple_silicon)
qed

theorem mps_available_implies_apple_silicon_witness:
  "mps_available (fst (init mac_m1))
   \<and> is_apple_silicon (fst (init mac_m1))
   \<and> fst (call_methods [ApplyAppleSiliconOptimizations, GetRecommendedSettings,
                         PrintSystemInfo, GetOptimalDevice False, GetMemoryInfo]
            (init mac_m1)) = fst (init mac_m1)
   \<and> (\<exists>s. fst (get_recommended_settings (fst (init mac_m1)) mac_m1) = Inr s
            \<and> precision s = ''float16'')
   \<and> detect_apple_silicon mac_m1"
proof -
  let ?cs = "[ApplyAppleSiliconOptimizations, GetRecommendedSettings,
              PrintSystemInfo, GetOptimalDevice False, GetMemoryInfo]"
  let ?s = "\<lparr>device = ''mps'', offload_to_cpu = True, offload_dit_to_cpu = False,
             use_flash_attention = False, backend = ''pt'', batch_size = 2,
             precision = ''float16''\<rparr>"
  have mps: "mps_available (fst (init mac_m1))"
    by code_simp
  have settled: "fst (get_recommended_settings (fst (init mac_m1)) mac_m1) = Inr ?s"
    by code_simp
  note inst = mps_available_implies_apple_silicon [of mac_m1 ?cs mac_m1 ?s]
  from inst have same: "fst (call_methods ?cs (init mac_m1)) = fst (init mac_m1)"
    by blast
  from inst mps have apple: "is_apple_silicon (fst (init mac_m1))"
    by blast
  from inst settled same have "detect_apple_silicon mac_m1"
    by simp
  with mps apple same settled show ?thesis
    by simp
qed

end
